theory Spec2Isabelle
  imports Complex_Main "HOL-Library.Word" "HOL-Library.Multiset"
begin

section \<open>JavaScript values used by the components\<close>

text \<open>
  The attendance records arrive as untyped JSON (\<^verbatim>\<open>allRecords: any[]\<close>). An optional
  string field is a \<open>string option\<close>: \<open>None\<close> stands for \<^verbatim>\<open>undefined\<close> and \<^verbatim>\<open>null\<close>.
  JavaScript's truthiness decides every test the components make on such a field:
  a missing field and the empty string are both falsy.
\<close>

definition truthy :: "string option \<Rightarrow> bool" where
  "truthy v = (case v of None \<Rightarrow> False | Some s \<Rightarrow> s \<noteq> [])"

text \<open>\<^verbatim>\<open>v || d\<close> for an optional string \<open>v\<close> and a string default \<open>d\<close>.\<close>

definition or_default :: "string option \<Rightarrow> string \<Rightarrow> string" where
  "or_default v d = (case v of None \<Rightarrow> d | Some s \<Rightarrow> if s = [] then d else s)"

text \<open>
  A JavaScript number, as far as the components look at it: it is \<^verbatim>\<open>NaN\<close> or it has a
  value. The only tests made on numbers here are truthiness (false for \<open>0\<close> and \<^verbatim>\<open>NaN\<close>)
  and \<^verbatim>\<open>isNaN\<close>.
\<close>

datatype number = NaN | Num real

fun isNaN :: "number \<Rightarrow> bool" where
  "isNaN NaN = True"
| "isNaN (Num x) = False"

fun truthy_number :: "number \<Rightarrow> bool" where
  "truthy_number NaN = False"
| "truthy_number (Num x) = (x \<noteq> 0)"

text \<open>
  A coordinate of a raw record: missing, a number, or a string (the processing step
  calls \<^verbatim>\<open>parseFloat\<close> on it, so strings are expected).
\<close>

datatype coord = Missing | CNum number | CStr string

fun truthy_coord :: "coord \<Rightarrow> bool" where
  "truthy_coord Missing = False"
| "truthy_coord (CNum n) = truthy_number n"
| "truthy_coord (CStr s) = (s \<noteq> [])"

text \<open>
  \<^verbatim>\<open>parseFloat(c)\<close>. The host's parser of numeric strings is the parameter \<open>pf\<close>;
  a number is converted to a string and parsed back, which returns the number;
  \<^verbatim>\<open>parseFloat(undefined)\<close> is \<^verbatim>\<open>NaN\<close>.
\<close>

fun parseFloat :: "(string \<Rightarrow> number) \<Rightarrow> coord \<Rightarrow> number" where
  "parseFloat pf Missing = NaN"
| "parseFloat pf (CNum n) = n"
| "parseFloat pf (CStr s) = pf s"

section \<open>Attendance records\<close>

text \<open>
  \<^verbatim>\<open>flags\<close>: a flag that is missing from the object reads as \<^verbatim>\<open>undefined\<close>, which every
  test in the component treats as \<open>False\<close>.
\<close>

record flags_t =
  isLate :: bool
  isLeave :: bool
  isHoliday :: bool
  isWeekend :: bool

record 'c location_t =
  latitude :: 'c
  longitude :: 'c

text \<open>
  \<^verbatim>\<open>AttendanceRecord\<close> and \<^verbatim>\<open>ProcessedAttendanceRecord\<close> (the same fields, with another
  type of location): \<open>'c\<close> is \<open>coord\<close> for a raw record and \<open>number\<close> for a processed one.
  The field \<open>rid\<close> is the record's \<^verbatim>\<open>_id\<close>.
\<close>

record 'c AttendanceRecord =
  rid :: "string option"
  date :: string
  checkIn :: "string option"
  checkOut :: "string option"
  status :: "string option"
  flags :: "flags_t option"
  location :: "'c location_t option"
  holidayTitle :: "string option"

type_synonym ProcessedAttendanceRecord = "number AttendanceRecord"

text \<open>\<^verbatim>\<open>record.flags?.isLeave\<close> and its siblings.\<close>

definition flag :: "(flags_t \<Rightarrow> bool) \<Rightarrow> 'c AttendanceRecord \<Rightarrow> bool" where
  "flag f r = (case flags r of None \<Rightarrow> False | Some fl \<Rightarrow> f fl)"

section \<open>AttendanceTable: processing of the fetched records\<close>

text \<open>The local variable \<^verbatim>\<open>finalStatus\<close> of the callback of \<^verbatim>\<open>allRecords.map\<close>.\<close>

definition finalStatus :: "'c AttendanceRecord \<Rightarrow> string" where
  "finalStatus r =
     (let fs = or_default (status r) ''absent'' in
      if \<not> truthy (checkIn r) then
        if flag isLeave r \<or> status r = Some ''leave'' then ''leave''
        else if flag isHoliday r then ''holiday''
        else if flag isWeekend r then ''weekend''
        else fs
      else fs)"

text \<open>The \<^verbatim>\<open>holidayTitle\<close> field of the object the callback returns.\<close>

definition resolvedHolidayTitle :: "'c AttendanceRecord \<Rightarrow> string option" where
  "resolvedHolidayTitle r =
     (if truthy (holidayTitle r) then holidayTitle r
      else if flag isHoliday r then Some ''Holiday'' else None)"

text \<open>The \<^verbatim>\<open>location\<close> field of the object the callback returns.\<close>

definition processedLocation ::
  "(string \<Rightarrow> number) \<Rightarrow> coord AttendanceRecord \<Rightarrow> number location_t option" where
  "processedLocation pf r =
     (case location r of
        None \<Rightarrow> None
      | Some l \<Rightarrow>
          if truthy_coord (latitude l) \<and> truthy_coord (longitude l)
          then Some \<lparr>latitude = parseFloat pf (latitude l),
                     longitude = parseFloat pf (longitude l)\<rparr>
          else None)"

definition emptyFlags :: flags_t where
  "emptyFlags = \<lparr>isLate = False, isLeave = False, isHoliday = False, isWeekend = False\<rparr>"

text \<open>The callback of \<^verbatim>\<open>allRecords.map\<close>, and the map itself.\<close>

definition processRecord ::
  "(string \<Rightarrow> number) \<Rightarrow> coord AttendanceRecord \<Rightarrow> ProcessedAttendanceRecord" where
  "processRecord pf r =
     \<lparr>rid = rid r,
      date = date r,
      checkIn = (if truthy (checkIn r) then checkIn r else None),
      checkOut = (if truthy (checkOut r) then checkOut r else None),
      status = Some (finalStatus r),
      flags = (case flags r of None \<Rightarrow> Some emptyFlags | Some fl \<Rightarrow> Some fl),
      location = processedLocation pf r,
      holidayTitle = resolvedHolidayTitle r\<rparr>"

definition processedRecords ::
  "(string \<Rightarrow> number) \<Rightarrow> coord AttendanceRecord list \<Rightarrow> number AttendanceRecord list" where
  "processedRecords pf allRecords = map (processRecord pf) allRecords"

section \<open>AttendanceTable: the displayed window\<close>

text \<open>
  \<^verbatim>\<open>Array.prototype.slice(start, end)\<close> on integer arguments: a negative index counts
  from the end of the array, and both indices are clipped to the array.
\<close>

definition Array_slice :: "'a list \<Rightarrow> int \<Rightarrow> int \<Rightarrow> 'a list" where
  "Array_slice xs startIndex endIndex =
     (let len = int (length xs);
          k = (if startIndex < 0 then max (len + startIndex) 0 else min startIndex len);
          final = (if endIndex < 0 then max (len + endIndex) 0 else min endIndex len)
      in take (nat (final - k)) (drop (nat k) xs))"

text \<open>
  \<^verbatim>\<open>Array.prototype.sort(comparator)\<close>. ECMAScript requires the sort to be stable, and a
  comparator result of \<^verbatim>\<open>NaN\<close> (here \<open>None\<close>) counts as \<open>+0\<close>. For a consistent
  comparator this fixes the result: it is the one a stable insertion sort gives, where an
  element moves past exactly the elements it is strictly greater than. For an
  inconsistent comparator ECMAScript leaves the order to the implementation.
\<close>

fun insert_by :: "('a \<Rightarrow> 'a \<Rightarrow> int option) \<Rightarrow> 'a \<Rightarrow> 'a list \<Rightarrow> 'a list" where
  "insert_by cmp x [] = [x]"
| "insert_by cmp x (y # ys) =
     (if (case cmp x y of None \<Rightarrow> False | Some v \<Rightarrow> 0 < v)
      then y # insert_by cmp x ys else x # y # ys)"

definition Array_sort :: "('a \<Rightarrow> 'a \<Rightarrow> int option) \<Rightarrow> 'a list \<Rightarrow> 'a list" where
  "Array_sort cmp xs = foldr (insert_by cmp) xs []"

datatype sort_order = Asc | Desc

text \<open>
  The comparator of \<^verbatim>\<open>updateCurrentWindow\<close>. The parameter \<open>getTime\<close> is the host's
  \<^verbatim>\<open>new Date(s).getTime()\<close>: the time value of a date string in milliseconds, \<open>None\<close> for
  \<^verbatim>\<open>NaN\<close> (the string does not parse). A difference with \<^verbatim>\<open>NaN\<close> is \<^verbatim>\<open>NaN\<close>.
\<close>

definition compareDates ::
  "(string \<Rightarrow> int option) \<Rightarrow> sort_order \<Rightarrow> 'c AttendanceRecord \<Rightarrow> 'c AttendanceRecord
     \<Rightarrow> int option" where
  "compareDates getTime order a b =
     (case getTime (date a) of
        None \<Rightarrow> None
      | Some dateA \<Rightarrow>
          (case getTime (date b) of
             None \<Rightarrow> None
           | Some dateB \<Rightarrow> Some (if order = Desc then dateB - dateA else dateA - dateB)))"

definition recordsPerPage :: int where
  "recordsPerPage = 7"

text \<open>
  The state of the component that the window and the bulk update depend on or change.
  \<open>selectedRecords\<close> is a \<^verbatim>\<open>Set<number>\<close> of indices into \<open>displayedData\<close>, kept as the
  list of its members in insertion order (the order \<^verbatim>\<open>Array.from\<close> gives).
\<close>

record TableState =
  allAttendanceData :: "ProcessedAttendanceRecord list"
  displayedData :: "ProcessedAttendanceRecord list"
  currentWindowIndex :: int
  statusFilter :: string
  sortOrder :: sort_order
  selectedRecords :: "nat list"
  bulkStatus :: string
  showBulkActions :: bool

text \<open>The initial values given to \<^verbatim>\<open>useState\<close>.\<close>

definition initialState :: TableState where
  "initialState =
     \<lparr>allAttendanceData = [], displayedData = [], currentWindowIndex = 0,
      statusFilter = ''all'', sortOrder = Desc, selectedRecords = [],
      bulkStatus = ''present'', showBulkActions = False\<rparr>"

text \<open>The locals \<^verbatim>\<open>filteredData\<close>, \<^verbatim>\<open>sortedRecords\<close> and \<^verbatim>\<open>windowData\<close> of \<^verbatim>\<open>updateCurrentWindow\<close>.\<close>

definition filteredData :: "'c AttendanceRecord list \<Rightarrow> string \<Rightarrow> 'c AttendanceRecord list" where
  "filteredData data filt =
     (if filt \<noteq> ''all'' then filter (\<lambda>record. status record = Some filt) data else data)"

definition sortedRecords ::
  "(string \<Rightarrow> int option) \<Rightarrow> 'c AttendanceRecord list \<Rightarrow> string \<Rightarrow> sort_order
     \<Rightarrow> 'c AttendanceRecord list" where
  "sortedRecords getTime data filt order =
     Array_sort (compareDates getTime order) (filteredData data filt)"

definition windowData ::
  "(string \<Rightarrow> int option) \<Rightarrow> 'c AttendanceRecord list \<Rightarrow> int \<Rightarrow> string \<Rightarrow> sort_order
     \<Rightarrow> 'c AttendanceRecord list" where
  "windowData getTime data windowIndex filt order =
     (let startIndex = windowIndex * recordsPerPage;
          endIndex = startIndex + recordsPerPage
      in Array_slice (sortedRecords getTime data filt order) startIndex endIndex)"

definition updateCurrentWindow ::
  "(string \<Rightarrow> int option) \<Rightarrow> number AttendanceRecord list \<Rightarrow> int \<Rightarrow> string \<Rightarrow> sort_order
     \<Rightarrow> TableState \<Rightarrow> TableState" where
  "updateCurrentWindow getTime data windowIndex filt order s =
     s\<lparr>displayedData := windowData getTime data windowIndex filt order,
       currentWindowIndex := windowIndex\<rparr>"

text \<open>\<^verbatim>\<open>getFilteredDataLength\<close>, \<^verbatim>\<open>totalPages\<close>, \<^verbatim>\<open>currentPage\<close> and \<^verbatim>\<open>handlePageChange\<close>.\<close>

definition getFilteredDataLength :: "TableState \<Rightarrow> nat" where
  "getFilteredDataLength s = length (filteredData (allAttendanceData s) (statusFilter s))"

text \<open>
  \<^verbatim>\<open>Math.ceil(n / recordsPerPage)\<close>, with the exact quotient (a list length is far below
  the sizes at which the rounding of the division could reach the next integer).
\<close>

definition totalPages :: "TableState \<Rightarrow> int" where
  "totalPages s = \<lceil>real (getFilteredDataLength s) / real_of_int recordsPerPage\<rceil>"

definition currentPage :: "TableState \<Rightarrow> int" where
  "currentPage s = currentWindowIndex s + 1"

definition handlePageChange :: "(string \<Rightarrow> int option) \<Rightarrow> int \<Rightarrow> TableState \<Rightarrow> TableState" where
  "handlePageChange getTime newPage s =
     (if newPage \<ge> 1 \<and> newPage \<le> totalPages s
      then updateCurrentWindow getTime (allAttendanceData s) (newPage - 1) (statusFilter s)
             (sortOrder s) s
      else s)"

section \<open>Dates\<close>

text \<open>
  The day and year arithmetic of ECMAScript's time values (milliseconds since
  1970-01-01T00:00:00Z): \<open>Day\<close>, \<open>DaysInYear\<close>, \<open>DayFromYear\<close>, \<open>YearFromTime\<close>,
  \<open>MonthFromTime\<close>, \<open>DateFromTime\<close>, \<open>MakeDay\<close>, \<open>MakeTime\<close> and \<open>MakeDate\<close>, as the language
  specification defines them.
\<close>

definition msPerDay :: int where
  "msPerDay = 86400000"


definition DaysInYear :: "int \<Rightarrow> int" where
  "DaysInYear y =
     (if y mod 4 \<noteq> 0 then 365 else if y mod 100 \<noteq> 0 then 366
      else if y mod 400 \<noteq> 0 then 365 else 366)"

definition DayFromYear :: "int \<Rightarrow> int" where
  "DayFromYear y =
     365 * (y - 1970) + (y - 1969) div 4 - (y - 1901) div 100 + (y - 1601) div 400"










text \<open>
  \<open>MakeDay\<close> for a month \<open>0 \<le> m < 12\<close>: the day number of the first of the month, plus
  the day of the month less one.
\<close>

definition daysBeforeMonth :: "int \<Rightarrow> int \<Rightarrow> int" where
  "daysBeforeMonth y m =
     (let l = (if DaysInYear y = 366 then 1 else 0) in
      if m = 0 then 0 else if m = 1 then 31 else if m = 2 then 59 + l
      else if m = 3 then 90 + l else if m = 4 then 120 + l else if m = 5 then 151 + l
      else if m = 6 then 181 + l else if m = 7 then 212 + l else if m = 8 then 243 + l
      else if m = 9 then 273 + l else if m = 10 then 304 + l else 334 + l)"

definition MakeDay :: "int \<Rightarrow> int \<Rightarrow> int \<Rightarrow> int" where
  "MakeDay y m dt = DayFromYear y + daysBeforeMonth y m + dt - 1"

definition MakeTime :: "int \<Rightarrow> int \<Rightarrow> int \<Rightarrow> int \<Rightarrow> int" where
  "MakeTime h mi sec ms = h * 3600000 + mi * 60000 + sec * 1000 + ms"

definition MakeDate :: "int \<Rightarrow> int \<Rightarrow> int" where
  "MakeDate day time = day * msPerDay + time"

definition DaysInMonth :: "int \<Rightarrow> int \<Rightarrow> int" where
  "DaysInMonth y m = (if m = 11 then DaysInYear y else daysBeforeMonth y (m + 1)) - daysBeforeMonth y m"

text \<open>Decimal digits.\<close>

definition digitChar :: "int \<Rightarrow> char" where
  "digitChar n = ''0123456789'' ! nat (n mod 10)"

definition pad2 :: "int \<Rightarrow> string" where
  "pad2 n = [digitChar (n div 10), digitChar n]"



definition isDigit :: "char \<Rightarrow> bool" where
  "isDigit c = (48 \<le> (of_char c :: int) \<and> (of_char c :: int) \<le> 57)"

definition decimal :: "string \<Rightarrow> int option" where
  "decimal ds =
     (if ds \<noteq> [] \<and> list_all isDigit ds
      then Some (foldl (\<lambda>n c. 10 * n + (of_char c - 48)) 0 ds) else None)"




text \<open>
  The time value ECMAScript gives to a string of its date-time format, for the
  date-only form \<^verbatim>\<open>YYYY-MM-DD\<close> (midnight UTC) and for the full UTC form
  \<^verbatim>\<open>YYYY-MM-DDTHH:mm:ss.sssZ\<close> (the form in which a \<^verbatim>\<open>Date\<close> is serialised to JSON).
  It is used for the concrete runs; it answers \<open>None\<close> for every other string, whatever
  the host's parser makes of it. The general statements below hold for every parser
  \<open>getTime\<close>; where one of them is about date-only strings, it asks that the parser agree
  with \<open>Date_parse\<close> on the string at hand.
\<close>

definition parseDatePart :: "string \<Rightarrow> int option" where
  "parseDatePart s =
     (if length s = 10 \<and> s ! 4 = CHR ''-'' \<and> s ! 7 = CHR ''-'' then
        (case (decimal (take 4 s), decimal (take 2 (drop 5 s)), decimal (drop 8 s)) of
           (Some y, Some m, Some d) \<Rightarrow>
             if 1 \<le> m \<and> m \<le> 12 \<and> 1 \<le> d \<and> d \<le> DaysInMonth y (m - 1)
             then Some (MakeDay y (m - 1) d) else None
         | _ \<Rightarrow> None)
      else None)"

definition parseTimePart :: "string \<Rightarrow> int option" where
  "parseTimePart s =
     (if length s = 14 \<and> s ! 0 = CHR ''T'' \<and> s ! 3 = CHR '':'' \<and> s ! 6 = CHR '':''
         \<and> s ! 9 = CHR ''.'' \<and> s ! 13 = CHR ''Z'' then
        (case (decimal (take 2 (drop 1 s)), decimal (take 2 (drop 4 s)),
               decimal (take 2 (drop 7 s)), decimal (take 3 (drop 10 s))) of
           (Some h, Some mi, Some sec, Some ms) \<Rightarrow>
             if h \<le> 23 \<and> mi \<le> 59 \<and> sec \<le> 59 then Some (MakeTime h mi sec ms) else None
         | _ \<Rightarrow> None)
      else None)"

definition Date_parse :: "string \<Rightarrow> int option" where
  "Date_parse s =
     (if length s = 10 then map_option (\<lambda>day. MakeDate day 0) (parseDatePart s)
      else
        (case (parseDatePart (take 10 s), parseTimePart (drop 10 s)) of
           (Some day, Some time) \<Rightarrow> Some (MakeDate day time)
         | _ \<Rightarrow> None))"

section \<open>AttendanceTable: the bulk status update\<close>









section \<open>AttendanceTable: the location predicate\<close>

text \<open>
  \<^verbatim>\<open>hasValidLocation\<close>: the truthiness of the value of the \<^verbatim>\<open>&&\<close> chain (the function is
  only used as a condition). It also writes a debug line to the console, when the
  predicate fails for a record with a check-in.
\<close>

definition hasValidLocation :: "ProcessedAttendanceRecord \<Rightarrow> bool" where
  "hasValidLocation record =
     (case location record of
        None \<Rightarrow> False
      | Some l \<Rightarrow>
          truthy_number (latitude l) \<and> truthy_number (longitude l) \<and>
          \<not> isNaN (latitude l) \<and> \<not> isNaN (longitude l))"

definition hasValidLocation_logs :: "ProcessedAttendanceRecord \<Rightarrow> bool" where
  "hasValidLocation_logs record = (\<not> hasValidLocation record \<and> truthy (checkIn record))"

section \<open>MyTaskReports: submitting and editing a report\<close>

text \<open>
  A task is a JavaScript string: a list of UTF-16 code units. \<^verbatim>\<open>String.prototype.trim\<close>
  removes white space and line terminators from both ends.
\<close>

type_synonym utf16 = "16 word list"

definition isWhiteSpace :: "16 word \<Rightarrow> bool" where
  "isWhiteSpace c =
     (c = 0x0009 \<or> c = 0x000A \<or> c = 0x000B \<or> c = 0x000C \<or> c = 0x000D \<or> c = 0x0020
      \<or> c = 0x00A0 \<or> c = 0x1680 \<or> (0x2000 \<le> c \<and> c \<le> 0x200A) \<or> c = 0x2028
      \<or> c = 0x2029 \<or> c = 0x202F \<or> c = 0x205F \<or> c = 0x3000 \<or> c = 0xFEFF)"

definition trim :: "utf16 \<Rightarrow> utf16" where
  "trim t = rev (dropWhile isWhiteSpace (rev (dropWhile isWhiteSpace t)))"

text \<open>The local \<^verbatim>\<open>nonEmptyTasks\<close> of both handlers.\<close>

definition nonEmptyTasks :: "utf16 list \<Rightarrow> utf16 list" where
  "nonEmptyTasks ts = filter (\<lambda>t. t \<noteq> []) (map trim ts)"

text \<open>
  \<^verbatim>\<open>TaskReport\<close> and \<^verbatim>\<open>TaskReportSubmission\<close>; their \<open>tasks\<close> and \<open>date\<close> fields carry the
  prefixes \<open>report_\<close> and \<open>sub_\<close>.
\<close>

record TaskReport =
  report_id :: string
  report_tasks :: "utf16 list"
  report_date :: "string option"
  createdAt :: string

record TaskReportSubmission =
  sub_tasks :: "utf16 list"
  sub_date :: string

datatype toast_variant = Warning | Success | Error

record Toast =
  variant :: toast_variant
  title :: string
  description :: string

text \<open>What a handler does to the outside, in order: a toast, or a call of the mutation.\<close>

datatype effect = ShowToast Toast | MutateAsync TaskReportSubmission

text \<open>
  What a rejected mutation throws: an \<^verbatim>\<open>Error\<close> with its message, or some other value.
  The parameter \<open>mutateAsync\<close> of the handlers is the backend: \<open>None\<close> when the call
  resolves.
\<close>

datatype thrown = ErrorObject string | OtherValue

record TaskState =
  submitTasks :: "utf16 list"
  submitDate :: string
  showSubmitModal :: bool
  editTasks :: "utf16 list"
  editingReport :: "string option"

definition validationToast :: Toast where
  "validationToast =
     \<lparr>variant = Warning, title = ''Validation Error'',
      description = ''Please enter at least one task''\<rparr>"

definition handleSubmitTasks ::
  "(TaskReportSubmission \<Rightarrow> thrown option) \<Rightarrow> TaskState \<Rightarrow> effect list \<times> TaskState" where
  "handleSubmitTasks mutateAsync s =
     (let nonEmpty = nonEmptyTasks (submitTasks s) in
      if length nonEmpty = 0 then ([ShowToast validationToast], s)
      else
        (let submission = \<lparr>sub_tasks = nonEmpty, sub_date = submitDate s\<rparr> in
         case mutateAsync submission of
           None \<Rightarrow>
             ([MutateAsync submission,
               ShowToast \<lparr>variant = Success, title = ''Success'',
                          description = ''Task report submitted successfully''\<rparr>],
              s\<lparr>showSubmitModal := False, submitTasks := [[]]\<rparr>)
         | Some e \<Rightarrow>
             ([MutateAsync submission,
               ShowToast \<lparr>variant = Error, title = ''Submission Failed'',
                          description = (case e of ErrorObject msg \<Rightarrow> msg
                                         | OtherValue \<Rightarrow> ''Failed to submit task report'')\<rparr>],
              s)))"

definition handleSaveEdit ::
  "(TaskReportSubmission \<Rightarrow> thrown option) \<Rightarrow> TaskReport \<Rightarrow> TaskState
     \<Rightarrow> effect list \<times> TaskState" where
  "handleSaveEdit mutateAsync report s =
     (let nonEmpty = nonEmptyTasks (editTasks s) in
      if length nonEmpty = 0 then ([ShowToast validationToast], s)
      else
        (let dateForSubmit =
               (if truthy (report_date report) then take 10 (the (report_date report))
                else take 10 (createdAt report));
             submission = \<lparr>sub_tasks = nonEmpty, sub_date = dateForSubmit\<rparr> in
         case mutateAsync submission of
           None \<Rightarrow>
             ([MutateAsync submission,
               ShowToast \<lparr>variant = Success, title = ''Success'',
                          description = ''Task report updated successfully''\<rparr>],
              s\<lparr>editingReport := None\<rparr>)
         | Some e \<Rightarrow>
             ([MutateAsync submission,
               ShowToast \<lparr>variant = Error, title = ''Update Failed'',
                          description = (case e of ErrorObject msg \<Rightarrow> msg
                                         | OtherValue \<Rightarrow> ''Failed to update task report'')\<rparr>],
              s)))"

section \<open>Header: the check-in and check-out buttons\<close>

record HeaderProps =
  isCheckedIn :: bool
  dailyCycleComplete :: bool
  checkInLoading :: bool
  checkOutLoading :: bool
  locationLoading :: bool
  wfhRequestPending :: bool

text \<open>The \<^verbatim>\<open>disabled\<close> attributes of the two buttons.\<close>

definition checkInDisabled :: "HeaderProps \<Rightarrow> bool" where
  "checkInDisabled p =
     (isCheckedIn p \<or> checkInLoading p \<or> locationLoading p \<or> dailyCycleComplete p
      \<or> wfhRequestPending p)"

definition checkOutDisabled :: "HeaderProps \<Rightarrow> bool" where
  "checkOutDisabled p = (\<not> isCheckedIn p \<or> checkOutLoading p \<or> dailyCycleComplete p)"

section \<open>Sample data for the concrete runs\<close>

definition sampleRecord :: "string \<Rightarrow> string \<Rightarrow> number AttendanceRecord" where
  "sampleRecord d st =
     \<lparr>rid = None, date = d, checkIn = None, checkOut = None, status = Some st,
      flags = Some emptyFlags, location = None, holidayTitle = None\<rparr>"

text \<open>Fifteen records, for the first fifteen days of March 2024.\<close>

definition march :: "number AttendanceRecord list" where
  "march =
     map (\<lambda>d. sampleRecord d ''present'')
       [''2024-03-01'', ''2024-03-02'', ''2024-03-03'', ''2024-03-04'', ''2024-03-05'',
        ''2024-03-06'', ''2024-03-07'', ''2024-03-08'', ''2024-03-09'', ''2024-03-10'',
        ''2024-03-11'', ''2024-03-12'', ''2024-03-13'', ''2024-03-14'', ''2024-03-15'']"

text \<open>Four records, two of them on the same day (a date-only and a full UTC date string).\<close>

definition sameDay :: "number AttendanceRecord list" where
  "sameDay =
     [sampleRecord ''2024-03-02'' ''present'',
      sampleRecord ''2024-03-01'' ''absent'',
      sampleRecord ''2024-03-03'' ''leave'',
      sampleRecord ''2024-03-01T00:00:00.000Z'' ''half-day'']"

text \<open>
  Two drafts of a task report: one with blank entries only (two spaces; nothing), one
  with the tasks \<^verbatim>\<open>" Write "\<close>, the empty string and \<^verbatim>\<open>"Test"\<close> followed by an em space.
\<close>

definition blankDraft :: TaskState where
  "blankDraft =
     \<lparr>submitTasks = [[0x20, 0x20], []], submitDate = ''2024-03-01'', showSubmitModal = True,
      editTasks = [[0x20, 0x20], []], editingReport = Some ''r1''\<rparr>"

definition draft :: TaskState where
  "draft =
     \<lparr>submitTasks = [[0x20, 0x57, 0x72, 0x69, 0x74, 0x65, 0x20], [],
                     [0x54, 0x65, 0x73, 0x74, 0x2003]],
      submitDate = ''2024-03-01'', showSubmitModal = True,
      editTasks = [[0x20, 0x57, 0x72, 0x69, 0x74, 0x65, 0x20], [],
                   [0x54, 0x65, 0x73, 0x74, 0x2003]],
      editingReport = Some ''r1''\<rparr>"


section \<open>Status resolution\<close>

lemma truthy_or_default: "truthy v \<Longrightarrow> Some (or_default v d) = v"
  by (cases v) (auto simp: truthy_def or_default_def)

lemma not_truthy_or_default: "\<not> truthy v \<Longrightarrow> or_default v d = d"
  by (cases v) (auto simp: truthy_def or_default_def)

text \<open>
  C1 (as amended). For every record whose \<open>checkIn\<close> is present and not the empty
  string, the resolved status is the backend's \<open>status\<close> when that is a non-empty string,
  and \<open>absent\<close> when the status is missing or the empty string; the flags play no part.
\<close>

theorem finalStatus_checkIn:
  "truthy (checkIn r) \<Longrightarrow>
     status (processRecord pf r) = Some (finalStatus r) \<and>
     finalStatus r = or_default (status r) ''absent'' \<and>
     (truthy (status r) \<longrightarrow> Some (finalStatus r) = status r) \<and>
     (\<not> truthy (status r) \<longrightarrow> finalStatus r = ''absent'') \<and>
     finalStatus (r\<lparr>flags := fl\<rparr>) = finalStatus r"
  by (simp add: finalStatus_def processRecord_def flag_def
      truthy_or_default not_truthy_or_default)

theorem finalStatus_checkIn_witness:
  "truthy (Some ''2024-03-01T04:00:00.000Z'') \<and>
   finalStatus (\<lparr>rid = None, date = ''2024-03-01'',
       checkIn = Some ''2024-03-01T04:00:00.000Z'', checkOut = None,
       status = Some ''present'',
       flags = Some \<lparr>isLate = False, isLeave = False, isHoliday = True, isWeekend = False\<rparr>,
       location = None, holidayTitle = None\<rparr> :: coord AttendanceRecord) = ''present''"
  using finalStatus_checkIn [of "(\<lparr>rid = None, date = ''2024-03-01'',
       checkIn = Some ''2024-03-01T04:00:00.000Z'', checkOut = None,
       status = Some ''present'',
       flags = Some \<lparr>isLate = False, isLeave = False, isHoliday = True, isWeekend = False\<rparr>,
       location = None, holidayTitle = None\<rparr> :: coord AttendanceRecord)" "\<lambda>s. NaN" None]
  by (auto simp: truthy_def or_default_def)

text \<open>
  C1 as stated fails in two places. A present but empty \<open>status\<close> is replaced by
  \<open>absent\<close> (the code defaults with \<^verbatim>\<open>||\<close>, not with \<^verbatim>\<open>??\<close>), so the resolved status is
  not the backend's; and a present but empty \<open>checkIn\<close> counts as no check-in, so a flag
  overrides the backend's status.
\<close>

theorem finalStatus_checkIn_counterexample:
  "finalStatus (\<lparr>rid = None, date = ''2024-03-01'',
       checkIn = Some ''2024-03-01T04:00:00.000Z'', checkOut = None,
       status = Some [], flags = None, location = None, holidayTitle = None\<rparr> :: coord AttendanceRecord) = ''absent''
   \<and>
   finalStatus (\<lparr>rid = None, date = ''2024-03-01'',
       checkIn = Some [], checkOut = None, status = Some ''present'',
       flags = Some \<lparr>isLate = False, isLeave = False, isHoliday = True, isWeekend = False\<rparr>,
       location = None, holidayTitle = None\<rparr> :: coord AttendanceRecord) = ''holiday''"
  by (simp add: finalStatus_def truthy_def or_default_def flag_def)

text \<open>
  C2. For every record with no \<open>checkIn\<close> (missing, or the empty string), the resolved
  status follows the precedence leave (the flag, or the status \<open>leave\<close>), then holiday,
  then weekend, then the record's own status, or \<open>absent\<close> when it has none: with no flag
  set, a status that is present and not empty is kept as it is, and a missing or empty
  status gives \<open>absent\<close>. With the three flags set the result is \<open>leave\<close>; with no flag
  and no status it is \<open>absent\<close>.
\<close>

theorem finalStatus_no_checkIn:
  "\<not> truthy (checkIn r) \<Longrightarrow>
     status (processRecord pf r) = Some (finalStatus r) \<and>
     finalStatus r =
       (if flag isLeave r \<or> status r = Some ''leave'' then ''leave''
        else if flag isHoliday r then ''holiday''
        else if flag isWeekend r then ''weekend''
        else (case status r of
                None \<Rightarrow> ''absent''
              | Some st \<Rightarrow> if st = [] then ''absent'' else st)) \<and>
     finalStatus r =
       (if flag isLeave r \<or> status r = Some ''leave'' then ''leave''
        else if flag isHoliday r then ''holiday''
        else if flag isWeekend r then ''weekend''
        else or_default (status r) ''absent'') \<and>
     (flag isLeave r \<longrightarrow> finalStatus r = ''leave'') \<and>
     (status r = Some ''leave'' \<longrightarrow> finalStatus r = ''leave'') \<and>
     (\<not> flag isLeave r \<and> status r \<noteq> Some ''leave'' \<and> flag isHoliday r
        \<longrightarrow> finalStatus r = ''holiday'') \<and>
     (\<not> flag isLeave r \<and> status r \<noteq> Some ''leave'' \<and> \<not> flag isHoliday r \<and> flag isWeekend r
        \<longrightarrow> finalStatus r = ''weekend'') \<and>
     (flag isLeave r \<and> flag isHoliday r \<and> flag isWeekend r \<longrightarrow> finalStatus r = ''leave'') \<and>
     (\<not> flag isLeave r \<and> \<not> flag isHoliday r \<and> \<not> flag isWeekend r \<and>
      status r = Some st \<and> st \<noteq> [] \<longrightarrow> finalStatus r = st) \<and>
     (\<not> flag isLeave r \<and> \<not> flag isHoliday r \<and> \<not> flag isWeekend r \<and> status r = Some []
        \<longrightarrow> finalStatus r = ''absent'') \<and>
     (\<not> flag isLeave r \<and> \<not> flag isHoliday r \<and> \<not> flag isWeekend r \<and> status r = None
        \<longrightarrow> finalStatus r = ''absent'')"
proof -
  assume no_checkIn: "\<not> truthy (checkIn r)"
  have processed: "status (processRecord pf r) = Some (finalStatus r)"
    by (simp add: processRecord_def)
  have fallback: "or_default (status r) ''absent'' =
      (case status r of None \<Rightarrow> ''absent'' | Some st \<Rightarrow> if st = [] then ''absent'' else st)"
    by (simp add: or_default_def)
  have chain: "finalStatus r =
      (if flag isLeave r \<or> status r = Some ''leave'' then ''leave''
       else if flag isHoliday r then ''holiday''
       else if flag isWeekend r then ''weekend''
       else or_default (status r) ''absent'')"
    using no_checkIn by (simp add: finalStatus_def)
  have explicit: "finalStatus r =
      (if flag isLeave r \<or> status r = Some ''leave'' then ''leave''
       else if flag isHoliday r then ''holiday''
       else if flag isWeekend r then ''weekend''
       else (case status r of
               None \<Rightarrow> ''absent''
             | Some st \<Rightarrow> if st = [] then ''absent'' else st))"
    using chain by (simp only: fallback)
  have kept: "\<not> flag isLeave r \<and> \<not> flag isHoliday r \<and> \<not> flag isWeekend r \<and>
      status r = Some st \<and> st \<noteq> [] \<longrightarrow> finalStatus r = st"
  proof
    assume h: "\<not> flag isLeave r \<and> \<not> flag isHoliday r \<and> \<not> flag isWeekend r \<and>
      status r = Some st \<and> st \<noteq> []"
    show "finalStatus r = st"
    proof (cases "st = ''leave''")
      case True
      with h explicit show ?thesis by simp
    next
      case False
      with h explicit show ?thesis by simp
    qed
  qed
  have empty: "\<not> flag isLeave r \<and> \<not> flag isHoliday r \<and> \<not> flag isWeekend r \<and>
      status r = Some [] \<longrightarrow> finalStatus r = ''absent''"
    using explicit by simp
  have missing: "\<not> flag isLeave r \<and> \<not> flag isHoliday r \<and> \<not> flag isWeekend r \<and>
      status r = None \<longrightarrow> finalStatus r = ''absent''"
    using explicit by simp
  have leave_flag: "flag isLeave r \<longrightarrow> finalStatus r = ''leave''"
    and leave_status: "status r = Some ''leave'' \<longrightarrow> finalStatus r = ''leave''"
    and holiday: "\<not> flag isLeave r \<and> status r \<noteq> Some ''leave'' \<and> flag isHoliday r
      \<longrightarrow> finalStatus r = ''holiday''"
    and weekend: "\<not> flag isLeave r \<and> status r \<noteq> Some ''leave'' \<and> \<not> flag isHoliday r \<and>
      flag isWeekend r \<longrightarrow> finalStatus r = ''weekend''"
    using explicit by simp_all
  from leave_flag have all_three:
    "flag isLeave r \<and> flag isHoliday r \<and> flag isWeekend r \<longrightarrow> finalStatus r = ''leave''"
    by blast
  from processed explicit chain leave_flag leave_status holiday weekend all_three kept empty
    missing
  show ?thesis by blast
qed

theorem finalStatus_no_checkIn_witness:
  "\<not> truthy None \<and>
   finalStatus (\<lparr>rid = None, date = ''2024-03-02'', checkIn = None, checkOut = None,
       status = Some ''absent'',
       flags = Some \<lparr>isLate = False, isLeave = True, isHoliday = True, isWeekend = True\<rparr>,
       location = None, holidayTitle = None\<rparr> :: coord AttendanceRecord) = ''leave'' \<and>
   finalStatus (\<lparr>rid = None, date = ''2024-03-04'', checkIn = None, checkOut = None,
       status = Some ''half-day'',
       flags = Some \<lparr>isLate = False, isLeave = False, isHoliday = False, isWeekend = False\<rparr>,
       location = None, holidayTitle = None\<rparr> :: coord AttendanceRecord) = ''half-day'' \<and>
   finalStatus (\<lparr>rid = None, date = ''2024-03-05'', checkIn = None, checkOut = None,
       status = None, flags = None, location = None, holidayTitle = None\<rparr>
       :: coord AttendanceRecord) = ''absent''"
proof -
  let ?onLeave = "\<lparr>rid = None, date = ''2024-03-02'', checkIn = None, checkOut = None,
       status = Some ''absent'',
       flags = Some \<lparr>isLate = False, isLeave = True, isHoliday = True, isWeekend = True\<rparr>,
       location = None, holidayTitle = None\<rparr> :: coord AttendanceRecord"
  let ?halfDay = "\<lparr>rid = None, date = ''2024-03-04'', checkIn = None, checkOut = None,
       status = Some ''half-day'',
       flags = Some \<lparr>isLate = False, isLeave = False, isHoliday = False, isWeekend = False\<rparr>,
       location = None, holidayTitle = None\<rparr> :: coord AttendanceRecord"
  let ?bare = "\<lparr>rid = None, date = ''2024-03-05'', checkIn = None, checkOut = None,
       status = None, flags = None, location = None, holidayTitle = None\<rparr>
       :: coord AttendanceRecord"
  have none: "\<not> truthy None" by (simp add: truthy_def)
  have "flag isLeave ?onLeave \<and> flag isHoliday ?onLeave \<and> flag isWeekend ?onLeave"
    by (simp add: flag_def)
  moreover have "\<not> truthy (checkIn ?onLeave)" using none by simp
  ultimately have first: "finalStatus ?onLeave = ''leave''"
    using finalStatus_no_checkIn [of ?onLeave "\<lambda>s. NaN" "''absent''"] by blast
  have "\<not> flag isLeave ?halfDay \<and> \<not> flag isHoliday ?halfDay \<and> \<not> flag isWeekend ?halfDay \<and>
      status ?halfDay = Some ''half-day'' \<and> ''half-day'' \<noteq> []"
    by (simp add: flag_def)
  moreover have "\<not> truthy (checkIn ?halfDay)" using none by simp
  ultimately have second: "finalStatus ?halfDay = ''half-day''"
    using finalStatus_no_checkIn [of ?halfDay "\<lambda>s. NaN" "''half-day''"] by blast
  have "\<not> flag isLeave ?bare \<and> \<not> flag isHoliday ?bare \<and> \<not> flag isWeekend ?bare \<and>
      status ?bare = None"
    by (simp add: flag_def)
  moreover have "\<not> truthy (checkIn ?bare)" using none by simp
  ultimately have third: "finalStatus ?bare = ''absent''"
    using finalStatus_no_checkIn [of ?bare "\<lambda>s. NaN" "''absent''"] by blast
  from none first second third show ?thesis by blast
qed

text \<open>
  C3 (as amended). The resolved \<open>holidayTitle\<close> is the record's own title when that is a
  non-empty string; otherwise it is \<open>Holiday\<close> exactly when the flag \<open>isHoliday\<close> is set, and
  absent in every other case.
\<close>

theorem resolvedHolidayTitle_flag:
  "holidayTitle (processRecord pf r) = resolvedHolidayTitle r \<and>
   (truthy (holidayTitle r) \<longrightarrow> resolvedHolidayTitle r = holidayTitle r) \<and>
   (\<not> truthy (holidayTitle r) \<longrightarrow>
      (resolvedHolidayTitle r = Some ''Holiday'') = flag isHoliday r \<and>
      (resolvedHolidayTitle r = None) = (\<not> flag isHoliday r))"
  by (simp add: resolvedHolidayTitle_def processRecord_def)

theorem resolvedHolidayTitle_flag_witness:
  "resolvedHolidayTitle (\<lparr>rid = None, date = ''2024-03-08'', checkIn = None, checkOut = None,
       status = None,
       flags = Some \<lparr>isLate = False, isLeave = False, isHoliday = True, isWeekend = False\<rparr>,
       location = None, holidayTitle = None\<rparr> :: coord AttendanceRecord) = Some ''Holiday''"
  using resolvedHolidayTitle_flag [of "(\<lambda>s. NaN)" "(\<lparr>rid = None, date = ''2024-03-08'',
       checkIn = None, checkOut = None, status = None,
       flags = Some \<lparr>isLate = False, isLeave = False, isHoliday = True, isWeekend = False\<rparr>,
       location = None, holidayTitle = None\<rparr> :: coord AttendanceRecord)"]
  by (auto simp: truthy_def flag_def)

text \<open>
  C3 as stated fails in both directions: a record that was checked in on a holiday
  resolves to \<open>present\<close> and still gets the title \<open>Holiday\<close>, and a record whose backend
  status is \<open>holiday\<close> with no flag set resolves to \<open>holiday\<close> and gets no title. A
  title that is supplied as the empty string is dropped.
\<close>

theorem resolvedHolidayTitle_counterexample:
  "finalStatus (\<lparr>rid = None, date = ''2024-03-08'',
       checkIn = Some ''2024-03-08T04:00:00.000Z'', checkOut = None,
       status = Some ''present'',
       flags = Some \<lparr>isLate = False, isLeave = False, isHoliday = True, isWeekend = False\<rparr>,
       location = None, holidayTitle = None\<rparr> :: coord AttendanceRecord) = ''present''
   \<and>
   resolvedHolidayTitle (\<lparr>rid = None, date = ''2024-03-08'',
       checkIn = Some ''2024-03-08T04:00:00.000Z'', checkOut = None,
       status = Some ''present'',
       flags = Some \<lparr>isLate = False, isLeave = False, isHoliday = True, isWeekend = False\<rparr>,
       location = None, holidayTitle = None\<rparr> :: coord AttendanceRecord) = Some ''Holiday''
   \<and>
   finalStatus (\<lparr>rid = None, date = ''2024-03-08'', checkIn = None, checkOut = None,
       status = Some ''holiday'', flags = None, location = None, holidayTitle = None\<rparr> :: coord AttendanceRecord)
     = ''holiday''
   \<and>
   resolvedHolidayTitle (\<lparr>rid = None, date = ''2024-03-08'', checkIn = None, checkOut = None,
       status = Some ''holiday'', flags = None, location = None, holidayTitle = None\<rparr> :: coord AttendanceRecord)
     = None
   \<and>
   resolvedHolidayTitle (\<lparr>rid = None, date = ''2024-03-08'', checkIn = None, checkOut = None,
       status = Some ''present'', flags = None, location = None, holidayTitle = Some []\<rparr> :: coord AttendanceRecord)
     = None"
  by (simp add: finalStatus_def resolvedHolidayTitle_def truthy_def or_default_def flag_def)

section \<open>The header's buttons\<close>

text \<open>
  C10. The two buttons are never enabled together: check-in is disabled whenever
  \<open>isCheckedIn\<close> holds, check-out is disabled whenever it does not, and once
  \<open>dailyCycleComplete\<close> holds both are disabled whatever the other inputs are.
\<close>

theorem header_buttons_exclusive:
  "(checkInDisabled p \<or> checkOutDisabled p) \<and>
   (isCheckedIn p \<longrightarrow> checkInDisabled p) \<and>
   (\<not> isCheckedIn p \<longrightarrow> checkOutDisabled p) \<and>
   (dailyCycleComplete p \<longrightarrow> checkInDisabled p \<and> checkOutDisabled p)"
  by (auto simp: checkInDisabled_def checkOutDisabled_def)

theorem header_buttons_exclusive_witness:
  "checkInDisabled \<lparr>isCheckedIn = True, dailyCycleComplete = False, checkInLoading = False,
      checkOutLoading = False, locationLoading = False, wfhRequestPending = False\<rparr> \<and>
   \<not> checkOutDisabled \<lparr>isCheckedIn = True, dailyCycleComplete = False,
      checkInLoading = False, checkOutLoading = False, locationLoading = False,
      wfhRequestPending = False\<rparr> \<and>
   checkOutDisabled \<lparr>isCheckedIn = True, dailyCycleComplete = True, checkInLoading = False,
      checkOutLoading = False, locationLoading = False, wfhRequestPending = False\<rparr>"
  using header_buttons_exclusive [of "\<lparr>isCheckedIn = True, dailyCycleComplete = False,
      checkInLoading = False, checkOutLoading = False, locationLoading = False,
      wfhRequestPending = False\<rparr>"]
    header_buttons_exclusive [of "\<lparr>isCheckedIn = True, dailyCycleComplete = True,
      checkInLoading = False, checkOutLoading = False, locationLoading = False,
      wfhRequestPending = False\<rparr>"]
  by (simp add: checkOutDisabled_def)

section \<open>The displayed window and the page count\<close>

lemma length_insert_by: "length (insert_by cmp x ys) = Suc (length ys)"
  by (induction ys) auto

lemma length_Array_sort: "length (Array_sort cmp xs) = length xs"
  by (induction xs) (auto simp: Array_sort_def length_insert_by)

lemma insert_by_asc:
  "getTime (date x) \<noteq> None \<Longrightarrow> \<forall>y\<in>set ys. getTime (date y) \<noteq> None \<Longrightarrow>
   insert_by (compareDates getTime Asc) x ys = insort_key (\<lambda>r. the (getTime (date r))) x ys"
  by (induction ys) (auto simp: compareDates_def)

lemma insert_by_desc:
  "getTime (date x) \<noteq> None \<Longrightarrow> \<forall>y\<in>set ys. getTime (date y) \<noteq> None \<Longrightarrow>
   insert_by (compareDates getTime Desc) x ys = insort_key (\<lambda>r. - the (getTime (date r))) x ys"
  by (induction ys) (auto simp: compareDates_def)

lemma Array_sort_asc:
  "\<forall>y\<in>set xs. getTime (date y) \<noteq> None \<Longrightarrow>
   Array_sort (compareDates getTime Asc) xs = sort_key (\<lambda>r. the (getTime (date r))) xs"
proof (induction xs)
  case Nil
  then show ?case by (simp add: Array_sort_def)
next
  case (Cons x xs)
  then have ih: "Array_sort (compareDates getTime Asc) xs = sort_key (\<lambda>r. the (getTime (date r))) xs"
    by simp
  have "\<forall>y\<in>set (sort_key (\<lambda>r. the (getTime (date r))) xs). getTime (date y) \<noteq> None"
    using Cons.prems by simp
  with Cons.prems have "insert_by (compareDates getTime Asc) x (sort_key (\<lambda>r. the (getTime (date r))) xs)
      = insort_key (\<lambda>r. the (getTime (date r))) x (sort_key (\<lambda>r. the (getTime (date r))) xs)"
    by (intro insert_by_asc) simp_all
  with ih show ?case
    by (simp add: Array_sort_def sort_key_def)
qed

lemma Array_sort_desc:
  "\<forall>y\<in>set xs. getTime (date y) \<noteq> None \<Longrightarrow>
   Array_sort (compareDates getTime Desc) xs = sort_key (\<lambda>r. - the (getTime (date r))) xs"
proof (induction xs)
  case Nil
  then show ?case by (simp add: Array_sort_def)
next
  case (Cons x xs)
  then have ih: "Array_sort (compareDates getTime Desc) xs = sort_key (\<lambda>r. - the (getTime (date r))) xs"
    by simp
  have "\<forall>y\<in>set (sort_key (\<lambda>r. - the (getTime (date r))) xs). getTime (date y) \<noteq> None"
    using Cons.prems by simp
  with Cons.prems have "insert_by (compareDates getTime Desc) x (sort_key (\<lambda>r. - the (getTime (date r))) xs)
      = insort_key (\<lambda>r. - the (getTime (date r))) x (sort_key (\<lambda>r. - the (getTime (date r))) xs)"
    by (intro insert_by_desc) simp_all
  with ih show ?case
    by (simp add: Array_sort_def sort_key_def)
qed

lemma Array_slice_nonneg:
  "0 \<le> a \<Longrightarrow> 0 \<le> n \<Longrightarrow> Array_slice xs a (a + n) = take (nat n) (drop (nat a) xs)"
proof -
  assume a: "0 \<le> a" and n: "0 \<le> n"
  let ?len = "int (length xs)"
  show ?thesis
  proof (cases "a \<le> ?len")
    case False
    with a n show ?thesis
      by (simp add: Array_slice_def Let_def min_def)
  next
    case True
    show ?thesis
    proof (cases "a + n \<le> ?len")
      case True
      with a n \<open>a \<le> ?len\<close> show ?thesis
        by (simp add: Array_slice_def Let_def min_def)
    next
      case False
      then have "length (drop (nat a) xs) \<le> nat n"
        using a n by simp
      then have "take (nat n) (drop (nat a) xs) = drop (nat a) xs"
        by simp
      moreover have "take (nat (?len - a)) (drop (nat a) xs) = drop (nat a) xs"
        using a True by simp
      ultimately show ?thesis
        using a n True False by (simp add: Array_slice_def Let_def min_def)
    qed
  qed
qed

lemma totalPages_div: "totalPages s = (int (getFilteredDataLength s) + 6) div 7"
proof -
  have "totalPages s = - (- int (getFilteredDataLength s) div 7)"
    unfolding totalPages_def recordsPerPage_def
    using ceiling_divide_eq_div [of "int (getFilteredDataLength s)" 7] by simp
  then show ?thesis by presburger
qed

lemma windowData_nonneg:
  "0 \<le> w \<Longrightarrow> windowData getTime data w filt order =
     take 7 (drop (7 * nat w) (sortedRecords getTime data filt order))"
  using Array_slice_nonneg [of "w * 7" 7 "sortedRecords getTime data filt order"]
  by (simp add: windowData_def recordsPerPage_def Let_def nat_mult_distrib mult.commute)

lemma length_sortedRecords_all:
  "length (sortedRecords getTime data ''all'' order) = length data"
  by (simp add: sortedRecords_def filteredData_def length_Array_sort)

text \<open>
  C4 (as amended). For every record list, filter, order and window index that is not
  negative, \<^verbatim>\<open>updateCurrentWindow\<close> shows the slice from \<open>windowIndex * 7\<close> up to, and
  not including, \<open>windowIndex * 7 + 7\<close> of the filtered and sorted records, clipped to
  their number; a window index beyond the last page gives the empty list. With 15
  records and no filter the windows 0, 1, 2 and 3 hold 7, 7, 1 and 0 records. The page
  size is the constant \<open>recordsPerPage = 7\<close> of the component; the slice itself is
  clipped in the same way for every page size.
\<close>

theorem windowData_slice:
  assumes "0 \<le> windowIndex"
  shows "displayedData (updateCurrentWindow getTime data windowIndex filt order s) =
           take 7 (drop (7 * nat windowIndex) (sortedRecords getTime data filt order)) \<and>
         currentWindowIndex (updateCurrentWindow getTime data windowIndex filt order s) = windowIndex \<and>
         length (displayedData (updateCurrentWindow getTime data windowIndex filt order s)) =
           min 7 (length (sortedRecords getTime data filt order) - 7 * nat windowIndex) \<and>
         (\<forall>i < length (displayedData (updateCurrentWindow getTime data windowIndex filt order s)).
            displayedData (updateCurrentWindow getTime data windowIndex filt order s) ! i =
            sortedRecords getTime data filt order ! (7 * nat windowIndex + i)) \<and>
         (int (length (sortedRecords getTime data filt order)) \<le> windowIndex * recordsPerPage \<longrightarrow>
            displayedData (updateCurrentWindow getTime data windowIndex filt order s) = []) \<and>
         (length data = 15 \<and> filt = ''all'' \<longrightarrow>
            length (displayedData (updateCurrentWindow getTime data windowIndex filt order s)) =
              (if windowIndex = 0 \<or> windowIndex = 1 then 7 else if windowIndex = 2 then 1 else 0)) \<and>
         (0 \<le> pageSize \<longrightarrow>
            Array_slice xs (windowIndex * pageSize) (windowIndex * pageSize + pageSize) =
              take (nat pageSize) (drop (nat windowIndex * nat pageSize) xs))"
proof -
  let ?sorted = "sortedRecords getTime data filt order"
  let ?shown = "displayedData (updateCurrentWindow getTime data windowIndex filt order s)"
  have shown: "?shown = take 7 (drop (7 * nat windowIndex) ?sorted)"
    using assms by (simp add: updateCurrentWindow_def windowData_nonneg)
  have idx: "currentWindowIndex (updateCurrentWindow getTime data windowIndex filt order s) = windowIndex"
    by (simp add: updateCurrentWindow_def)
  have len: "length ?shown = min 7 (length ?sorted - 7 * nat windowIndex)"
    by (simp add: shown min.commute)
  have nth: "\<forall>i < length ?shown. ?shown ! i = ?sorted ! (7 * nat windowIndex + i)"
  proof (intro allI impI)
    fix i
    assume "i < length ?shown"
    with len have "i < 7" "7 * nat windowIndex + i < length ?sorted" by linarith+
    then show "?shown ! i = ?sorted ! (7 * nat windowIndex + i)"
      by (simp add: shown)
  qed
  have empty: "int (length ?sorted) \<le> windowIndex * recordsPerPage \<longrightarrow> ?shown = []"
    using assms by (auto simp: shown recordsPerPage_def)
  have fifteen: "length data = 15 \<and> filt = ''all'' \<longrightarrow>
      length ?shown = (if windowIndex = 0 \<or> windowIndex = 1 then 7 else if windowIndex = 2 then 1 else 0)"
  proof
    assume h: "length data = 15 \<and> filt = ''all''"
    then have "length ?sorted = 15" by (simp add: length_sortedRecords_all)
    with len have "length ?shown = min 7 (15 - 7 * nat windowIndex)" by simp
    with assms show "length ?shown = (if windowIndex = 0 \<or> windowIndex = 1 then 7 else if windowIndex = 2 then 1 else 0)"
      by (auto simp: min_def)
  qed
  have any_size: "0 \<le> pageSize \<longrightarrow>
      Array_slice xs (windowIndex * pageSize) (windowIndex * pageSize + pageSize) =
        take (nat pageSize) (drop (nat windowIndex * nat pageSize) xs)"
    using assms Array_slice_nonneg [of "windowIndex * pageSize" pageSize xs]
    by (simp add: nat_mult_distrib)
  from shown idx len nth empty fifteen any_size show ?thesis by blast
qed

theorem windowData_slice_witness:
  "length (displayedData (updateCurrentWindow Date_parse march 0 ''all'' Desc initialState)) = 7 \<and>
   length (displayedData (updateCurrentWindow Date_parse march 1 ''all'' Desc initialState)) = 7 \<and>
   length (displayedData (updateCurrentWindow Date_parse march 2 ''all'' Desc initialState)) = 1 \<and>
   displayedData (updateCurrentWindow Date_parse march 3 ''all'' Desc initialState) = []"
proof -
  have l: "length march = 15" by (simp add: march_def)
  have f: "length (displayedData (updateCurrentWindow Date_parse march w ''all'' Desc initialState)) =
      (if w = 0 \<or> w = 1 then 7 else if w = 2 then 1 else 0)" if "0 \<le> w" for w
    using windowData_slice [OF that, of Date_parse march "''all''" Desc initialState] l by blast
  show ?thesis
    using f [of 0] f [of 1] f [of 2] f [of 3] by simp
qed

text \<open>
  C4 as stated fails for a negative window index: \<^verbatim>\<open>slice\<close> counts a negative index from
  the end of the array, so with the eight records of 1 to 8 March the window index \<open>-2\<close>
  shows the most recent one (the slice from \<open>-14\<close> to \<open>-7\<close>), not the empty list.
\<close>

theorem windowData_negative_counterexample:
  "windowData Date_parse (take 8 march) (- 2) ''all'' Desc =
     [sampleRecord ''2024-03-08'' ''present'']"
  by code_simp

text \<open>
  C5 (as amended). The number of pages is the ceiling of the number of filtered records
  over the page size, which is 0 (not 1) when no record passes the filter; a request for
  a page below 1 or past the number of pages changes nothing; a request for a page in
  range moves the cursor to that page.
\<close>

theorem totalPages_page_change:
  "totalPages s = (int (getFilteredDataLength s) + 6) div 7 \<and>
   real (getFilteredDataLength s) / 7 \<le> real_of_int (totalPages s) \<and>
   real_of_int (totalPages s) < real (getFilteredDataLength s) / 7 + 1 \<and>
   (getFilteredDataLength s = 0 \<longrightarrow> totalPages s = 0) \<and>
   (newPage < 1 \<or> totalPages s < newPage \<longrightarrow> handlePageChange getTime newPage s = s) \<and>
   (1 \<le> newPage \<and> newPage \<le> totalPages s \<longrightarrow>
      handlePageChange getTime newPage s =
        updateCurrentWindow getTime (allAttendanceData s) (newPage - 1) (statusFilter s)
          (sortOrder s) s \<and>
      currentPage (handlePageChange getTime newPage s) = newPage)"
proof -
  have ceil: "real (getFilteredDataLength s) / 7 \<le> real_of_int (totalPages s)"
    "real_of_int (totalPages s) < real (getFilteredDataLength s) / 7 + 1"
    unfolding totalPages_def recordsPerPage_def by (simp, linarith)
  have zero: "getFilteredDataLength s = 0 \<longrightarrow> totalPages s = 0"
    by (simp add: totalPages_def)
  have noop: "newPage < 1 \<or> totalPages s < newPage \<longrightarrow> handlePageChange getTime newPage s = s"
    by (auto simp: handlePageChange_def)
  have move: "1 \<le> newPage \<and> newPage \<le> totalPages s \<longrightarrow>
      handlePageChange getTime newPage s =
        updateCurrentWindow getTime (allAttendanceData s) (newPage - 1) (statusFilter s)
          (sortOrder s) s \<and>
      currentPage (handlePageChange getTime newPage s) = newPage"
    by (simp add: handlePageChange_def currentPage_def updateCurrentWindow_def)
  from totalPages_div [of s] ceil zero noop move show ?thesis by blast
qed

theorem totalPages_page_change_witness:
  "totalPages (initialState\<lparr>allAttendanceData := march\<rparr>) = 3 \<and>
   handlePageChange Date_parse 4 (initialState\<lparr>allAttendanceData := march\<rparr>)
     = initialState\<lparr>allAttendanceData := march\<rparr> \<and>
   handlePageChange Date_parse 0 (initialState\<lparr>allAttendanceData := march\<rparr>)
     = initialState\<lparr>allAttendanceData := march\<rparr> \<and>
   currentPage (handlePageChange Date_parse 3 (initialState\<lparr>allAttendanceData := march\<rparr>)) = 3"
proof -
  let ?s = "initialState\<lparr>allAttendanceData := march\<rparr>"
  have n: "getFilteredDataLength ?s = 15"
    by (simp add: getFilteredDataLength_def filteredData_def initialState_def march_def)
  have t: "totalPages ?s = 3"
    using totalPages_page_change [of ?s 4 Date_parse] n by simp
  have "handlePageChange Date_parse 4 ?s = ?s"
    using totalPages_page_change [of ?s 4 Date_parse] t by simp
  moreover have "handlePageChange Date_parse 0 ?s = ?s"
    using totalPages_page_change [of ?s 0 Date_parse] by simp
  moreover have "currentPage (handlePageChange Date_parse 3 ?s) = 3"
  proof -
    from t have "(1::int) \<le> 3 \<and> 3 \<le> totalPages ?s" by simp
    with totalPages_page_change [of ?s 3 Date_parse] show ?thesis by blast
  qed
  ultimately show ?thesis
    using t by simp
qed

text \<open>
  C5 as stated fails on the minimum: with no records the number of pages is 0, not 1
  (the page controls are shown only when there is more than one page).
\<close>

theorem totalPages_empty_counterexample:
  "totalPages initialState = 0"
  by (simp add: totalPages_def getFilteredDataLength_def filteredData_def initialState_def)

section \<open>Sorting by date\<close>

lemma set_filteredData: "set (filteredData data filt) \<subseteq> set data"
  by (auto simp: filteredData_def)

lemma filter_time_key:
  fixes getTime :: "string \<Rightarrow> int option"
  assumes "\<forall>r\<in>set xs. getTime (date r) \<noteq> None"
  shows "filter (\<lambda>r. getTime (date r) = Some t) xs = filter (\<lambda>r. the (getTime (date r)) = t) xs"
    and "filter (\<lambda>r. getTime (date r) = Some t) xs = filter (\<lambda>r. - the (getTime (date r)) = - t) xs"
  using assms by (auto intro!: filter_cong)

text \<open>
  C6. The records are sorted by the time value of their date alone, most recent first in
  the initial state of the component, and the sort is stable: with dates that parse, the
  sorted records are the stable sort of the filtered records keyed by the time value (up
  for \<open>Asc\<close>, down for \<open>Desc\<close>), a permutation of them in which the records of each
  date keep their order of arrival; and sorting the descending result ascending leaves
  the records of each date in that order again. (For a date that does not parse the
  comparator answers \<^verbatim>\<open>NaN\<close> and ECMAScript leaves the order to the implementation.)
\<close>

theorem sortedRecords_stable:
  assumes "\<forall>r\<in>set data. getTime (date r) \<noteq> None"
  shows "sortOrder initialState = Desc \<and>
    sortedRecords getTime data filt Asc =
      sort_key (\<lambda>r. the (getTime (date r))) (filteredData data filt) \<and>
    sortedRecords getTime data filt Desc =
      sort_key (\<lambda>r. - the (getTime (date r))) (filteredData data filt) \<and>
    sorted_wrt (\<lambda>a b. the (getTime (date a)) \<le> the (getTime (date b)))
      (sortedRecords getTime data filt Asc) \<and>
    sorted_wrt (\<lambda>a b. the (getTime (date a)) \<ge> the (getTime (date b)))
      (sortedRecords getTime data filt Desc) \<and>
    mset (sortedRecords getTime data filt order) = mset (filteredData data filt) \<and>
    (\<forall>t. filter (\<lambda>r. getTime (date r) = Some t) (sortedRecords getTime data filt order) =
         filter (\<lambda>r. getTime (date r) = Some t) (filteredData data filt)) \<and>
    (\<forall>t. filter (\<lambda>r. getTime (date r) = Some t)
           (Array_sort (compareDates getTime Asc) (sortedRecords getTime data filt Desc)) =
         filter (\<lambda>r. getTime (date r) = Some t) (filteredData data filt))"
proof -
  let ?xs = "filteredData data filt"
  let ?up = "\<lambda>r. the (getTime (date r))"
  let ?down = "\<lambda>r. - the (getTime (date r))"
  have valid: "\<forall>r\<in>set ?xs. getTime (date r) \<noteq> None"
    using assms set_filteredData [of data filt] by blast
  have asc: "sortedRecords getTime data filt Asc = sort_key ?up ?xs"
    unfolding sortedRecords_def by (rule Array_sort_asc [OF valid])
  have desc: "sortedRecords getTime data filt Desc = sort_key ?down ?xs"
    unfolding sortedRecords_def by (rule Array_sort_desc [OF valid])
  have either: "sortedRecords getTime data filt order = sort_key ?up ?xs \<or>
      sortedRecords getTime data filt order = sort_key ?down ?xs"
    using asc desc by (cases order) simp_all
  have up: "sorted_wrt (\<lambda>a b. ?up a \<le> ?up b) (sortedRecords getTime data filt Asc)"
    using sorted_sort_key [of ?up ?xs] by (simp add: asc sorted_map)
  have down: "sorted_wrt (\<lambda>a b. ?up a \<ge> ?up b) (sortedRecords getTime data filt Desc)"
    using sorted_sort_key [of ?down ?xs] by (simp add: desc sorted_map)
  have perm: "mset (sortedRecords getTime data filt order) = mset ?xs"
    using either by auto
  have key_stable: "filter (\<lambda>r. getTime (date r) = Some t) (sort_key ?up zs) =
      filter (\<lambda>r. getTime (date r) = Some t) zs"
    "filter (\<lambda>r. getTime (date r) = Some t) (sort_key ?down zs) =
      filter (\<lambda>r. getTime (date r) = Some t) zs"
    if z: "\<forall>r\<in>set zs. getTime (date r) \<noteq> None" for zs :: "'a AttendanceRecord list" and t
  proof -
    have "filter (\<lambda>r. getTime (date r) = Some t) (sort_key ?up zs) =
        filter (\<lambda>r. ?up r = t) (sort_key ?up zs)"
      by (rule filter_time_key(1)) (use z in simp)
    also have "\<dots> = filter (\<lambda>r. ?up r = t) zs"
      by (rule sort_key_stable)
    also have "\<dots> = filter (\<lambda>r. getTime (date r) = Some t) zs"
      by (rule filter_time_key(1) [symmetric, OF z])
    finally show "filter (\<lambda>r. getTime (date r) = Some t) (sort_key ?up zs) =
        filter (\<lambda>r. getTime (date r) = Some t) zs" .
    have "filter (\<lambda>r. getTime (date r) = Some t) (sort_key ?down zs) =
        filter (\<lambda>r. ?down r = - t) (sort_key ?down zs)"
      by (rule filter_time_key(2)) (use z in simp)
    also have "\<dots> = filter (\<lambda>r. ?down r = - t) zs"
      by (rule sort_key_stable)
    also have "\<dots> = filter (\<lambda>r. getTime (date r) = Some t) zs"
      by (rule filter_time_key(2) [symmetric, OF z])
    finally show "filter (\<lambda>r. getTime (date r) = Some t) (sort_key ?down zs) =
        filter (\<lambda>r. getTime (date r) = Some t) zs" .
  qed
  have stable: "filter (\<lambda>r. getTime (date r) = Some t) (sortedRecords getTime data filt order) =
      filter (\<lambda>r. getTime (date r) = Some t) ?xs" for t
    using either key_stable [OF valid, of t] by auto
  have again: "filter (\<lambda>r. getTime (date r) = Some t)
        (Array_sort (compareDates getTime Asc) (sortedRecords getTime data filt Desc)) =
      filter (\<lambda>r. getTime (date r) = Some t) ?xs" for t
  proof -
    let ?ys = "sort_key ?down ?xs"
    have v: "\<forall>r\<in>set ?ys. getTime (date r) \<noteq> None"
      using valid by simp
    have "Array_sort (compareDates getTime Asc) ?ys = sort_key ?up ?ys"
      by (rule Array_sort_asc [OF v])
    with key_stable(1) [OF v, of t] key_stable(2) [OF valid, of t] show ?thesis
      by (simp add: desc)
  qed
  have "sortOrder initialState = Desc" by (simp add: initialState_def)
  with asc desc up down perm stable again show ?thesis by blast
qed

lemma sameDay_valid: "\<forall>r\<in>set sameDay. Date_parse (date r) \<noteq> None"
  by (simp add: sameDay_def sampleRecord_def Date_parse_def parseDatePart_def parseTimePart_def decimal_def isDigit_def
   DaysInMonth_def DaysInYear_def daysBeforeMonth_def)

theorem sortedRecords_stable_witness:
  "filter (\<lambda>r. Date_parse (date r) = Some 1709251200000)
      (sortedRecords Date_parse sameDay ''all'' Desc) =
     [sampleRecord ''2024-03-01'' ''absent'', sampleRecord ''2024-03-01T00:00:00.000Z'' ''half-day'']"
proof -
  have "filter (\<lambda>r. Date_parse (date r) = Some 1709251200000) (filteredData sameDay ''all'')
      = [sampleRecord ''2024-03-01'' ''absent'', sampleRecord ''2024-03-01T00:00:00.000Z'' ''half-day'']"
    by (simp add: filteredData_def sameDay_def sampleRecord_def Date_parse_def parseDatePart_def parseTimePart_def decimal_def isDigit_def
   DaysInMonth_def DaysInYear_def daysBeforeMonth_def MakeDate_def MakeDay_def MakeTime_def DayFromYear_def msPerDay_def)
  moreover have "filter (\<lambda>r. Date_parse (date r) = Some 1709251200000)
      (sortedRecords Date_parse sameDay ''all'' Desc) =
      filter (\<lambda>r. Date_parse (date r) = Some 1709251200000) (filteredData sameDay ''all'')"
    using sortedRecords_stable [OF sameDay_valid, of "''all''" Desc] by blast
  ultimately show ?thesis
    by simp
qed

section \<open>The location predicate\<close>

lemma truthy_number_iff: "(truthy_number n \<and> \<not> isNaN n) = (\<exists>x. n = Num x \<and> x \<noteq> 0)"
  by (cases n) auto

lemma hasValidLocation_iff:
  "hasValidLocation p =
     (\<exists>x y. location p = Some \<lparr>latitude = Num x, longitude = Num y\<rparr> \<and> x \<noteq> 0 \<and> y \<noteq> 0)"
proof (cases "location p")
  case None
  then show ?thesis by (simp add: hasValidLocation_def)
next
  case (Some l)
  obtain a b where l: "l = \<lparr>latitude = a, longitude = b\<rparr>" by (cases l) simp
  have "hasValidLocation p =
      ((truthy_number a \<and> \<not> isNaN a) \<and> (truthy_number b \<and> \<not> isNaN b))"
    using Some l by (auto simp: hasValidLocation_def)
  also have "\<dots> = (\<exists>x y. a = Num x \<and> b = Num y \<and> x \<noteq> 0 \<and> y \<noteq> 0)"
    unfolding truthy_number_iff by blast
  finally show ?thesis using Some l by auto
qed

text \<open>
  C9 (as amended). The location predicate accepts exactly the records whose location has
  both coordinates present, numeric, not \<^verbatim>\<open>NaN\<close> and not zero. For a fetched record this
  means: the location is present, both raw coordinates are truthy, and both parse to
  numbers other than zero. A record with a missing location or a missing (or otherwise
  falsy) coordinate is given the location \<^verbatim>\<open>null\<close> by the processing step and is not
  accepted. Both functions are total: no input raises an error.
\<close>

theorem hasValidLocation_exact:
  "hasValidLocation p =
     (\<exists>x y. location p = Some \<lparr>latitude = Num x, longitude = Num y\<rparr> \<and> x \<noteq> 0 \<and> y \<noteq> 0) \<and>
   hasValidLocation (processRecord pf r) =
     (\<exists>l x y. location r = Some l \<and> truthy_coord (latitude l) \<and> truthy_coord (longitude l) \<and>
        parseFloat pf (latitude l) = Num x \<and> parseFloat pf (longitude l) = Num y \<and>
        x \<noteq> 0 \<and> y \<noteq> 0) \<and>
   (location r = None \<or>
    (\<exists>l. location r = Some l \<and> (\<not> truthy_coord (latitude l) \<or> \<not> truthy_coord (longitude l)))
      \<longrightarrow> location (processRecord pf r) = None \<and> \<not> hasValidLocation (processRecord pf r))"
proof -
  have processed: "hasValidLocation (processRecord pf r) =
     (\<exists>l x y. location r = Some l \<and> truthy_coord (latitude l) \<and> truthy_coord (longitude l) \<and>
        parseFloat pf (latitude l) = Num x \<and> parseFloat pf (longitude l) = Num y \<and>
        x \<noteq> 0 \<and> y \<noteq> 0)"
    unfolding hasValidLocation_iff
    by (cases "location r") (auto simp: processRecord_def processedLocation_def)
  have missing: "location r = None \<or>
    (\<exists>l. location r = Some l \<and> (\<not> truthy_coord (latitude l) \<or> \<not> truthy_coord (longitude l)))
      \<longrightarrow> location (processRecord pf r) = None \<and> \<not> hasValidLocation (processRecord pf r)"
    by (auto simp: processRecord_def processedLocation_def hasValidLocation_def)
  from hasValidLocation_iff [of p] processed missing show ?thesis by blast
qed

theorem hasValidLocation_exact_witness:
  "hasValidLocation (sampleRecord ''2024-03-01'' ''present''
      \<lparr>location := Some \<lparr>latitude = Num 28.6, longitude = Num 77.2\<rparr>\<rparr>) \<and>
   \<not> hasValidLocation (processRecord (\<lambda>s. NaN)
      \<lparr>rid = None, date = ''2024-03-01'', checkIn = None, checkOut = None,
       status = None, flags = None, location = None, holidayTitle = None\<rparr>)"
proof -
  let ?p = "sampleRecord ''2024-03-01'' ''present''
      \<lparr>location := Some \<lparr>latitude = Num 28.6, longitude = Num 77.2\<rparr>\<rparr>"
  let ?r = "\<lparr>rid = None, date = ''2024-03-01'', checkIn = None, checkOut = None,
       status = None, flags = None, location = None, holidayTitle = None\<rparr> :: coord AttendanceRecord"
  note exact = hasValidLocation_exact [of ?p "\<lambda>s. NaN" ?r]
  have "\<exists>x y. location ?p = Some \<lparr>latitude = Num x, longitude = Num y\<rparr> \<and> x \<noteq> 0 \<and> y \<noteq> 0"
    by (intro exI [of _ "28.6"] exI [of _ "77.2"]) (simp add: sampleRecord_def)
  with exact have "hasValidLocation ?p" by blast
  moreover have "location ?r = None" by simp
  with exact have "\<not> hasValidLocation (processRecord (\<lambda>s. NaN) ?r)" by blast
  ultimately show ?thesis by simp
qed

text \<open>
  C9 as stated fails for a coordinate that is zero: the predicate tests the coordinates
  for truthiness, and \<open>0\<close> is falsy, so a location on the equator (or on the prime
  meridian) is present, numeric and not \<^verbatim>\<open>NaN\<close>, and is not accepted.
\<close>

theorem hasValidLocation_zero_counterexample:
  "\<not> hasValidLocation (sampleRecord ''2024-03-01'' ''present''
      \<lparr>location := Some \<lparr>latitude = Num 0, longitude = Num 77.2\<rparr>\<rparr>)"
  by (simp add: hasValidLocation_def sampleRecord_def)


section \<open>Task reports\<close>

lemma dropWhile_Nil_iff: "(dropWhile P xs = []) = (\<forall>x\<in>set xs. P x)"
  by (induction xs) auto

lemma trim_empty_iff: "(trim t = []) = (\<forall>c\<in>set t. isWhiteSpace c)"
proof
  assume "trim t = []"
  then have all: "\<forall>x\<in>set (dropWhile isWhiteSpace t). isWhiteSpace x"
    by (simp add: trim_def dropWhile_Nil_iff)
  have "dropWhile isWhiteSpace t = []"
  proof (rule ccontr)
    assume ne: "dropWhile isWhiteSpace t \<noteq> []"
    then have "\<not> isWhiteSpace (hd (dropWhile isWhiteSpace t))" by (rule hd_dropWhile)
    moreover have "hd (dropWhile isWhiteSpace t) \<in> set (dropWhile isWhiteSpace t)"
      using ne by simp
    ultimately show False using all by blast
  qed
  then show "\<forall>c\<in>set t. isWhiteSpace c" by (simp add: dropWhile_Nil_iff)
next
  assume "\<forall>c\<in>set t. isWhiteSpace c"
  then show "trim t = []" by (auto simp: trim_def dropWhile_Nil_iff dest: set_dropWhileD)
qed

lemma nonEmptyTasks_empty_iff:
  "(nonEmptyTasks ts = []) = (\<forall>t\<in>set ts. \<forall>c\<in>set t. isWhiteSpace c)"
  by (simp add: nonEmptyTasks_def filter_empty_conv trim_empty_iff)

lemma trim_ends:
  assumes "trim t \<noteq> []"
  shows "\<not> isWhiteSpace (hd (trim t)) \<and> \<not> isWhiteSpace (last (trim t))"
proof -
  let ?a = "dropWhile isWhiteSpace t"
  let ?b = "dropWhile isWhiteSpace (rev ?a)"
  from assms have b: "?b \<noteq> []" by (simp add: trim_def)
  then have a: "?a \<noteq> []" by (metis dropWhile.simps(1) rev.simps(1))
  have "\<not> isWhiteSpace (hd ?b)" using b by (rule hd_dropWhile)
  then have l: "\<not> isWhiteSpace (last (trim t))"
    using b by (simp add: trim_def last_rev)
  have "rev (takeWhile isWhiteSpace (rev ?a) @ ?b) = rev (rev ?a)"
    by (simp only: takeWhile_dropWhile_id)
  then have "?a = rev ?b @ rev (takeWhile isWhiteSpace (rev ?a))"
    by (simp only: rev_append rev_rev_ident)
  then have "?a = trim t @ rev (takeWhile isWhiteSpace (rev ?a))"
    by (simp only: trim_def)
  then have "hd ?a = hd (trim t)" using assms by (metis hd_append2)
  moreover have "\<not> isWhiteSpace (hd ?a)" using a by (rule hd_dropWhile)
  ultimately show ?thesis using l by simp
qed

text \<open>
  C8. For a new report and for an edit alike: when the task list is empty after trimming
  and dropping the empty entries (that is, when every entry is white space only), the
  handler shows the validation warning and does nothing else, so no call of the mutation
  is made and the state is unchanged; otherwise the first thing it does is to call the
  mutation, once, with exactly the trimmed non-empty tasks. A trimmed non-empty task
  neither starts nor ends with white space.
\<close>

theorem task_submission_validated:
  "(nonEmptyTasks (submitTasks s) = [] \<longrightarrow>
      handleSubmitTasks mutateAsync s = ([ShowToast validationToast], s)) \<and>
   (nonEmptyTasks (submitTasks s) \<noteq> [] \<longrightarrow>
      (\<exists>toast. fst (handleSubmitTasks mutateAsync s) =
         [MutateAsync \<lparr>sub_tasks = nonEmptyTasks (submitTasks s), sub_date = submitDate s\<rparr>,
          ShowToast toast])) \<and>
   (nonEmptyTasks (editTasks s) = [] \<longrightarrow>
      handleSaveEdit mutateAsync report s = ([ShowToast validationToast], s)) \<and>
   (nonEmptyTasks (editTasks s) \<noteq> [] \<longrightarrow>
      (\<exists>toast d. fst (handleSaveEdit mutateAsync report s) =
         [MutateAsync \<lparr>sub_tasks = nonEmptyTasks (editTasks s), sub_date = d\<rparr>,
          ShowToast toast])) \<and>
   variant validationToast = Warning \<and>
   description validationToast = ''Please enter at least one task'' \<and>
   nonEmptyTasks ts = filter (\<lambda>t. t \<noteq> []) (map trim ts) \<and>
   (nonEmptyTasks ts = []) = (\<forall>t\<in>set ts. \<forall>c\<in>set t. isWhiteSpace c) \<and>
   (\<forall>t\<in>set (nonEmptyTasks ts).
      \<not> isWhiteSpace (hd t) \<and> \<not> isWhiteSpace (last t) \<and> (\<exists>u\<in>set ts. t = trim u))"
proof -
  have submit_rejected: "nonEmptyTasks (submitTasks s) = [] \<longrightarrow>
      handleSubmitTasks mutateAsync s = ([ShowToast validationToast], s)"
    by (simp add: handleSubmitTasks_def)
  have submit_sent: "nonEmptyTasks (submitTasks s) \<noteq> [] \<longrightarrow>
      (\<exists>toast. fst (handleSubmitTasks mutateAsync s) =
         [MutateAsync \<lparr>sub_tasks = nonEmptyTasks (submitTasks s), sub_date = submitDate s\<rparr>,
          ShowToast toast])"
    by (simp add: handleSubmitTasks_def Let_def split: option.split)
  have edit_rejected: "nonEmptyTasks (editTasks s) = [] \<longrightarrow>
      handleSaveEdit mutateAsync report s = ([ShowToast validationToast], s)"
    by (simp add: handleSaveEdit_def)
  have edit_sent: "nonEmptyTasks (editTasks s) \<noteq> [] \<longrightarrow>
      (\<exists>toast d. fst (handleSaveEdit mutateAsync report s) =
         [MutateAsync \<lparr>sub_tasks = nonEmptyTasks (editTasks s), sub_date = d\<rparr>,
          ShowToast toast])"
    by (simp add: handleSaveEdit_def Let_def split: option.split)
  have toast: "variant validationToast = Warning"
    "description validationToast = ''Please enter at least one task''"
    by (simp_all add: validationToast_def)
  have trimmed: "\<forall>t\<in>set (nonEmptyTasks ts).
      \<not> isWhiteSpace (hd t) \<and> \<not> isWhiteSpace (last t) \<and> (\<exists>u\<in>set ts. t = trim u)"
    using trim_ends by (auto simp: nonEmptyTasks_def)
  from submit_rejected submit_sent edit_rejected edit_sent toast trimmed
    nonEmptyTasks_empty_iff [of ts] nonEmptyTasks_def [of ts]
  show ?thesis by blast
qed


theorem task_submission_validated_witness:
  "handleSubmitTasks (\<lambda>sub. None) blankDraft = ([ShowToast validationToast], blankDraft) \<and>
   handleSaveEdit (\<lambda>sub. None)
     \<lparr>report_id = ''r1'', report_tasks = [], report_date = Some ''2024-03-01T00:00:00.000Z'',
      createdAt = ''2024-03-01T12:00:00.000Z''\<rparr> blankDraft
     = ([ShowToast validationToast], blankDraft) \<and>
   hd (fst (handleSubmitTasks (\<lambda>sub. None) draft)) =
     MutateAsync \<lparr>sub_tasks = [[0x57, 0x72, 0x69, 0x74, 0x65], [0x54, 0x65, 0x73, 0x74]],
                  sub_date = ''2024-03-01''\<rparr>"
proof -
  let ?report = "\<lparr>report_id = ''r1'', report_tasks = [],
      report_date = Some ''2024-03-01T00:00:00.000Z'', createdAt = ''2024-03-01T12:00:00.000Z''\<rparr>"
  have blank: "nonEmptyTasks (submitTasks blankDraft) = []" "nonEmptyTasks (editTasks blankDraft) = []"
    by (simp_all add: blankDraft_def nonEmptyTasks_def trim_def isWhiteSpace_def)
  have tasks: "nonEmptyTasks (submitTasks draft) =
      [[0x57, 0x72, 0x69, 0x74, 0x65], [0x54, 0x65, 0x73, 0x74]]"
    by (simp add: draft_def nonEmptyTasks_def trim_def isWhiteSpace_def)
  note blank_case = task_submission_validated [of blankDraft "\<lambda>sub. None" ?report "[]"]
  note draft_case = task_submission_validated [of draft "\<lambda>sub. None" ?report "[]"]
  have "handleSubmitTasks (\<lambda>sub. None) blankDraft = ([ShowToast validationToast], blankDraft)"
    using blank_case blank by blast
  moreover have "handleSaveEdit (\<lambda>sub. None) ?report blankDraft
      = ([ShowToast validationToast], blankDraft)"
    using blank_case blank by blast
  moreover have "hd (fst (handleSubmitTasks (\<lambda>sub. None) draft)) =
     MutateAsync \<lparr>sub_tasks = [[0x57, 0x72, 0x69, 0x74, 0x65], [0x54, 0x65, 0x73, 0x74]],
                  sub_date = ''2024-03-01''\<rparr>"
  proof -
    from tasks have "nonEmptyTasks (submitTasks draft) \<noteq> []" by simp
    with draft_case obtain toast where
      "fst (handleSubmitTasks (\<lambda>sub. None) draft) =
         [MutateAsync \<lparr>sub_tasks = nonEmptyTasks (submitTasks draft), sub_date = submitDate draft\<rparr>,
          ShowToast toast]"
      by blast
    then show ?thesis by (simp add: tasks) (simp add: draft_def)
  qed
  ultimately show ?thesis by simp
qed

section \<open>Dates: from a calendar date to its time value and back\<close>

























lemma pad2_digits: "pad2 n = [digitChar (n div 10), digitChar n]"
  by (simp add: pad2_def)



section \<open>The bulk status update\<close>







end
